theory Spec2Isabelle
  imports Complex_Main "HOL-Library.AList"
begin

section \<open>Data model: the interfaces Point, Drawing, Annotation, Clip and AnalysisData\<close>

text \<open>
  The TypeScript type \<open>number\<close> is modelled by \<^typ>\<open>real\<close>: finite values with exact
  arithmetic and exact comparison (no NaN, no infinities, no rounding).  Where the source
  divides, the divisor zero is kept apart (see \<open>js_div\<close>).  A \<open>string\<close> is a
  \<^typ>\<open>string\<close>; binary file contents are byte lists, and an Isabelle \<^typ>\<open>char\<close> is a byte.
  Field names carry a prefix because several interfaces share \<open>id\<close>, \<open>x\<close>, \<open>y\<close>, \<open>time\<close>.
\<close>

type_synonym bytes = "char list"

record Point =
  pt_x :: real
  pt_y :: real
  pt_isStart :: "bool option"  \<comment> \<open>\<open>isStart?: boolean\<close>; \<open>None\<close> is \<open>undefined\<close>\<close>

record Drawing =
  d_id :: string
  d_time :: real
  d_color :: string
  d_size :: real
  d_path :: "Point list"

record Annotation =
  a_id :: string
  a_x :: real
  a_y :: real
  a_time :: real
  a_text :: string
  a_color :: string

record Clip =
  c_id :: string
  c_name :: string
  c_startTime :: real
  c_endTime :: real
  c_duration :: real
  c_speed :: real
  c_x :: real
  c_y :: real

record AnalysisData =
  ad_notes :: string
  ad_drawings :: "Drawing list"
  ad_annotations :: "Annotation list"
  ad_clips :: "Clip list"
  primaryVideoFileName :: "string option"

datatype ToolMode = point | pen

record File =
  f_name :: string
  f_bytes :: bytes

section \<open>Application state: the component App\<close>

text \<open>
  The \<open>useState\<close> cells and the \<open>clipTimeoutRef\<close> of \<open>App\<close>, followed by the part of the
  browser the handlers act on: the pending one-shot timers of \<open>window.setTimeout\<close> (handle
  and requested delay in milliseconds; the callback of every timer of this program is
  \<open>stopClip\<close>), the last handle the browser issued, the handles whose callback has run, the
  \<open>alert\<close> boxes shown to the user and the number of \<open>console.error\<close> calls.
  The object URL of \<open>videoSrc\<close> is represented by the file it designates.
\<close>

record app =
  videoSrc :: "File option"
  videoFileName :: "string option"
  videoFile :: "File option"
  isPlaying :: bool
  currentTime :: real
  duration :: real
  playbackRate :: real
  toolMode :: ToolMode
  brushColor :: string
  brushSize :: real
  "notes" :: string
  drawings :: "Drawing list"
  annotations :: "Annotation list"
  clips :: "Clip list"
  activeClipId :: "string option"
  clipTimeoutRef :: "nat option"
  seekTimestamp :: "real option"
  timers :: "(nat \<times> real option) list"
  timerSeq :: nat
  fired :: "nat list"
  alerts :: "string list"
  consoleErrors :: nat

definition init :: app where
  "init = \<lparr> videoSrc = None, videoFileName = None, videoFile = None,
      isPlaying = False, currentTime = 0, duration = 0, playbackRate = 1,
      toolMode = point, brushColor = ''#ff0000'', brushSize = 5,
      notes = [], drawings = [], annotations = [], clips = [],
      activeClipId = None, clipTimeoutRef = None, seekTimestamp = None,
      timers = [], timerSeq = 0, fired = [], alerts = [], consoleErrors = 0 \<rparr>"

section \<open>Point-mode capture: handleAddAnnotation\<close>

text \<open>
  \<open>x.toFixed(2)\<close> read back by \<open>parseFloat\<close>: the sign is split off, a magnitude of
  \<open>10^21\<close> or more is printed in full, and otherwise the integer \<open>n\<close> with \<open>n / 100\<close>
  nearest to the magnitude is taken, the larger one on a tie.
\<close>

definition toFixed2 :: "real \<Rightarrow> real" where
  "toFixed2 v =
     (if 10 ^ 21 \<le> \<bar>v\<bar> then v
      else if v < 0 then - (of_int \<lfloor>(- v) * 100 + 1 / 2\<rfloor> / 100)
      else of_int \<lfloor>v * 100 + 1 / 2\<rfloor> / 100)"

text \<open>
  \<open>handleAddAnnotation(x, y, time)\<close>.  The answer of \<open>prompt\<close> (\<open>None\<close> when the dialog is
  dismissed) and the string \<open>Date.now().toString()\<close> are inputs.  \<open>!text\<close> holds for
  \<open>null\<close> and for the empty string.
\<close>

definition handleAddAnnotation ::
    "string option \<Rightarrow> string \<Rightarrow> real \<Rightarrow> real \<Rightarrow> real \<Rightarrow> app \<Rightarrow> app" where
  "handleAddAnnotation prompt now x y time s =
     (case prompt of
        None \<Rightarrow> s
      | Some text \<Rightarrow>
          if text = [] then s
          else
            let id = now;
                s1 = s\<lparr>annotations := annotations s @
                       [\<lparr>a_id = id, a_x = x, a_y = y, a_time = time, a_text = text,
                         a_color = brushColor s\<rparr>]\<rparr>;
                clipStart = time;
                clipEnd = min (time + 2) (duration s)
            in s1\<lparr>clips := clips s1 @
                   [\<lparr>c_id = id, c_name = text, c_startTime = clipStart, c_endTime = clipEnd,
                     c_duration = toFixed2 (clipEnd - clipStart), c_speed = 0.5,
                     c_x = x, c_y = y\<rparr>]\<rparr>)"

section \<open>Clip playback: playClip, stopClip, onDeleteClip and the auto-stop timer\<close>

text \<open>
  \<open>window.setTimeout\<close> issues a fresh positive handle and files the timer as pending;
  \<open>clearTimeout\<close> drops the pending timer with that handle, if there is one.
\<close>

definition setTimeout :: "real option \<Rightarrow> app \<Rightarrow> nat \<times> app" where
  "setTimeout delay s =
     (let h = Suc (timerSeq s)
      in (h, s\<lparr>timers := timers s @ [(h, delay)], timerSeq := h\<rparr>))"

definition clearTimeout :: "nat \<Rightarrow> app \<Rightarrow> app" where
  "clearTimeout h s = s\<lparr>timers := filter (\<lambda>t. fst t \<noteq> h) (timers s)\<rparr>"

text \<open>
  The statement \<open>if (clipTimeoutRef.current) clearTimeout(clipTimeoutRef.current)\<close>, which
  opens both \<open>playClip\<close> and \<open>stopClip\<close>.  The test is on truthiness: \<open>null\<close> and the
  number \<open>0\<close> skip the call.
\<close>

definition clearClipTimeout :: "app \<Rightarrow> app" where
  "clearClipTimeout s =
     (case clipTimeoutRef s of
        None \<Rightarrow> s
      | Some h \<Rightarrow> if h = 0 then s else clearTimeout h s)"

text \<open>
  A quotient of two numbers; \<open>None\<close> stands for the non-finite results (\<open>Infinity\<close>,
  \<open>-Infinity\<close>, \<open>NaN\<close>) that JavaScript gives for a zero divisor.
\<close>

definition js_div :: "real \<Rightarrow> real \<Rightarrow> real option" where
  "js_div a b = (if b = 0 then None else Some (a / b))"

definition stopClip :: "app \<Rightarrow> app" where
  "stopClip s =
     (let s1 = clearClipTimeout s
      in s1\<lparr>activeClipId := None, isPlaying := False, playbackRate := 1\<rparr>)"

definition playClip :: "Clip \<Rightarrow> app \<Rightarrow> app" where
  "playClip clip s =
     (let s1 = clearClipTimeout s;
          s2 = s1\<lparr>activeClipId := Some (c_id clip),
                  playbackRate := c_speed clip,
                  seekTimestamp := Some (c_startTime clip),
                  isPlaying := True\<rparr>;
          durationMs = map_option (\<lambda>q. q * 1000)
                         (js_div (c_endTime clip - c_startTime clip) (c_speed clip));
          (h, s3) = setTimeout durationMs s2
      in s3\<lparr>clipTimeoutRef := Some h\<rparr>)"

text \<open>
  The browser runs the callback of a pending timer: the timer leaves the pending list, its
  handle is logged in \<open>fired\<close>, and the callback \<open>stopClip\<close> runs.  A handle that is not
  pending has no callback to run.
\<close>

definition timerFires :: "nat \<Rightarrow> app \<Rightarrow> app" where
  "timerFires h s =
     (if h \<in> set (map fst (timers s))
      then stopClip (s\<lparr>timers := filter (\<lambda>t. fst t \<noteq> h) (timers s), fired := fired s @ [h]\<rparr>)
      else s)"

definition onDeleteClip :: "string \<Rightarrow> app \<Rightarrow> app" where
  "onDeleteClip id' s =
     (let s1 = (if activeClipId s = Some id' then stopClip s else s)
      in s1\<lparr>clips := filter (\<lambda>c. c_id c \<noteq> id') (clips s1)\<rparr>)"

definition onDeleteAnnotation :: "string \<Rightarrow> app \<Rightarrow> app" where
  "onDeleteAnnotation id' s = s\<lparr>annotations := filter (\<lambda>a. a_id a \<noteq> id') (annotations s)\<rparr>"

definition onAddDrawing :: "Drawing \<Rightarrow> app \<Rightarrow> app" where
  "onAddDrawing d s = s\<lparr>drawings := drawings s @ [d]\<rparr>"

text \<open>\<open>onClearAll\<close>; the answer to \<open>confirm\<close> is an input.\<close>

definition onClearAll :: "bool \<Rightarrow> app \<Rightarrow> app" where
  "onClearAll confirmed s =
     (if confirmed then s\<lparr>drawings := [], annotations := [], clips := []\<rparr> else s)"

definition onVideoTimeUpdate :: "real \<Rightarrow> real \<Rightarrow> app \<Rightarrow> app" where
  "onVideoTimeUpdate curr' dur s = s\<lparr>currentTime := curr', duration := dur\<rparr>"

section \<open>Video and archive loading and saving\<close>

definition loadVideoFile :: "File \<Rightarrow> app \<Rightarrow> app" where
  "loadVideoFile file s =
     s\<lparr>videoSrc := Some file, videoFileName := Some (f_name file), videoFile := Some file,
       drawings := [], annotations := [], clips := [], notes := []\<rparr>"

definition handleVideoUpload :: "File option \<Rightarrow> app \<Rightarrow> app" where
  "handleVideoUpload file s = (case file of None \<Rightarrow> s | Some f \<Rightarrow> loadVideoFile f s)"

text \<open>
  A JSZip object is the list of its entries, name and content, looked up with
  \<^const>\<open>map_of\<close> and written with \<^const>\<open>AList.update\<close>.  The libraries are inputs of the
  handlers: \<open>loadAsync\<close> reads an uploaded file of any representation \<open>'f\<close> (\<open>None\<close> when
  the promise rejects), \<open>generateAsync\<close> writes one, \<open>stringify\<close> is
  \<open>JSON.stringify(data, null, 2)\<close> in UTF-8 and \<open>parse\<close> is \<open>JSON.parse\<close> of the entry read
  as a string (\<open>None\<close> when it throws; a result is taken to have the declared type
  \<open>AnalysisData\<close>).  Entry contents are taken to be readable once the archive is open.
  The \<open>await\<close>s are not interleaved with other handlers.
\<close>

type_synonym zip = "(string \<times> bytes) list"

text \<open>The \<open>catch\<close> block of \<open>handleZipUpload\<close>.\<close>

definition loadFailed :: "app \<Rightarrow> app" where
  "loadFailed s =
     s\<lparr>consoleErrors := consoleErrors s + 1,
       alerts := alerts s @ [''Failed to load analysis file.'']\<rparr>"

definition handleZipUpload ::
    "('f \<Rightarrow> zip option) \<Rightarrow> (bytes \<Rightarrow> AnalysisData option) \<Rightarrow> 'f option \<Rightarrow> app \<Rightarrow> app" where
  "handleZipUpload loadAsync parse file s =
     (case file of
        None \<Rightarrow> s
      | Some f \<Rightarrow>
          (case loadAsync f of
             None \<Rightarrow> loadFailed s
           | Some zip' \<Rightarrow>
               (case map_of zip' ''analysis_data.json'' of
                  None \<Rightarrow> s
                | Some jsonContent \<Rightarrow>
                    (case parse jsonContent of
                       None \<Rightarrow> loadFailed s
                     | Some data \<Rightarrow>
                         let s1 = s\<lparr>notes := ad_notes data,
                                    drawings := ad_drawings data,
                                    annotations := ad_annotations data,
                                    clips := ad_clips data\<rparr>
                         in (case primaryVideoFileName data of
                               None \<Rightarrow> s1
                             | Some name \<Rightarrow>
                                 if name = [] then s1
                                 else
                                   (case map_of zip' name of
                                      Some videoBlob \<Rightarrow>
                                        loadVideoFile \<lparr>f_name = name, f_bytes = videoBlob\<rparr> s1
                                    | None \<Rightarrow>
                                        s1\<lparr>alerts := alerts s1 @
                                          [''Analysis loaded, but the video file was missing in the archive.'']\<rparr>))))))"

text \<open>
  \<open>saveAnalysis\<close> changes no state; its result is the archive handed to \<open>saveAs\<close>, or
  \<open>None\<close> when it returns early.  \<open>videoFileName || 'video.mp4'\<close> replaces \<open>null\<close> and the
  empty string.
\<close>

definition saveAnalysis ::
    "(AnalysisData \<Rightarrow> bytes) \<Rightarrow> (zip \<Rightarrow> 'f) \<Rightarrow> app \<Rightarrow> 'f option" where
  "saveAnalysis stringify generateAsync s =
     (case videoFile s of
        None \<Rightarrow> None
      | Some vf \<Rightarrow>
          let name = (case videoFileName s of
                        None \<Rightarrow> ''video.mp4''
                      | Some n \<Rightarrow> if n = [] then ''video.mp4'' else n);
              data = \<lparr>ad_notes = notes s, ad_drawings = drawings s,
                      ad_annotations = annotations s, ad_clips = clips s,
                      primaryVideoFileName = Some name\<rparr>;
              zip0 = AList.update ''analysis_data.json'' (stringify data) [];
              zip1 = AList.update name (f_bytes vf) zip0
          in Some (generateAsync zip1))"

section \<open>The application as a transition system\<close>

text \<open>
  One event per handler that \<open>App\<close> passes to its components, per state setter that is
  passed on as it is, and per firing of a timer.  Reloading the page (\<open>onReset\<close>) ends the
  run and is not an event.
\<close>

datatype 'f event =
    PlayClip Clip
  | StopClip
  | DeleteClip string
  | TimerFires nat
  | AddAnnotation "string option" string real real real
  | DeleteAnnotation string
  | AddDrawing Drawing
  | ClearAll bool
  | VideoTimeUpdate real real
  | SetIsPlaying bool
  | SetPlaybackRate real
  | SetToolMode ToolMode
  | SetBrushColor string
  | SetBrushSize real
  | SetNotes string
  | SeekComplete
  | VideoUpload "File option"
  | ZipUpload "'f option"

fun step ::
    "('f \<Rightarrow> zip option) \<Rightarrow> (bytes \<Rightarrow> AnalysisData option) \<Rightarrow> 'f event \<Rightarrow> app \<Rightarrow> app" where
  "step la pj (PlayClip clip) s = playClip clip s"
| "step la pj StopClip s = stopClip s"
| "step la pj (DeleteClip id') s = onDeleteClip id' s"
| "step la pj (TimerFires h) s = timerFires h s"
| "step la pj (AddAnnotation prompt now x y time) s = handleAddAnnotation prompt now x y time s"
| "step la pj (DeleteAnnotation id') s = onDeleteAnnotation id' s"
| "step la pj (AddDrawing d) s = onAddDrawing d s"
| "step la pj (ClearAll confirmed) s = onClearAll confirmed s"
| "step la pj (VideoTimeUpdate curr' dur) s = onVideoTimeUpdate curr' dur s"
| "step la pj (SetIsPlaying b) s = s\<lparr>isPlaying := b\<rparr>"
| "step la pj (SetPlaybackRate r) s = s\<lparr>playbackRate := r\<rparr>"
| "step la pj (SetToolMode m) s = s\<lparr>toolMode := m\<rparr>"
| "step la pj (SetBrushColor c) s = s\<lparr>brushColor := c\<rparr>"
| "step la pj (SetBrushSize n) s = s\<lparr>brushSize := n\<rparr>"
| "step la pj (SetNotes n) s = s\<lparr>notes := n\<rparr>"
| "step la pj SeekComplete s = s\<lparr>seekTimestamp := None\<rparr>"
| "step la pj (VideoUpload file) s = handleVideoUpload file s"
| "step la pj (ZipUpload file) s = handleZipUpload la pj file s"

fun run ::
    "('f \<Rightarrow> zip option) \<Rightarrow> (bytes \<Rightarrow> AnalysisData option) \<Rightarrow> 'f event list \<Rightarrow> app \<Rightarrow> app" where
  "run la pj [] s = s"
| "run la pj (e # es) s = run la pj es (step la pj e s)"

text \<open>
  The bookkeeping of the auto-stop timer that every run from \<open>init\<close> keeps: a pending timer
  is the one \<open>clipTimeoutRef\<close> holds, its handle is positive and was issued by the browser,
  it has not fired yet, and every handle that fired was issued.
\<close>

definition timer_inv :: "app \<Rightarrow> bool" where
  "timer_inv s \<longleftrightarrow>
     (\<forall>t \<in> set (timers s).
        clipTimeoutRef s = Some (fst t) \<and> 0 < fst t \<and> fst t \<le> timerSeq s
        \<and> fst t \<notin> set (fired s))
     \<and> (\<forall>h \<in> set (fired s). h \<le> timerSeq s)"

text \<open>A handle that the browser has issued and that is no longer pending.\<close>

definition spent :: "nat \<Rightarrow> app \<Rightarrow> bool" where
  "spent h s \<longleftrightarrow> h \<le> timerSeq s \<and> h \<notin> set (map fst (timers s))"

text \<open>
  What the components derive from the active-clip reference: the \<open>activeClip\<close> property of
  \<open>VideoPlayer\<close> (\<open>clips.find(c => c.id === activeClipId) || null\<close>), the scale and
  origin (in percent; \<open>None\<close> is \<open>center center\<close>) of its \<open>transformStyle\<close>, and the
  \<open>isPlaying\<close> flag that \<open>Sidebar\<close> computes for each clip of the list.
\<close>

definition activeClip :: "app \<Rightarrow> Clip option" where
  "activeClip s =
     (case activeClipId s of None \<Rightarrow> None | Some a \<Rightarrow> find (\<lambda>c. c_id c = a) (clips s))"


definition clipIsPlaying :: "app \<Rightarrow> Clip \<Rightarrow> bool" where
  "clipIsPlaying s clip \<longleftrightarrow> activeClipId s = Some (c_id clip)"


section \<open>Sample data\<close>

text \<open>
  Two clips and the state in which the first of them is playing, used to instantiate the
  theorems below.
\<close>

definition sample_clipB :: Clip where
  "sample_clipB = \<lparr>c_id = ''1'', c_name = ''B'', c_startTime = 2, c_endTime = 4,
      c_duration = 2, c_speed = 0.5, c_x = 1/4, c_y = 3/4\<rparr>"

definition sample_clipA :: Clip where
  "sample_clipA = \<lparr>c_id = ''2'', c_name = ''A'', c_startTime = 5, c_endTime = 6,
      c_duration = 1, c_speed = 0.5, c_x = 1/2, c_y = 1/2\<rparr>"

definition sample_playingB :: app where
  "sample_playingB = playClip sample_clipB (init\<lparr>duration := 10, clips := [sample_clipB, sample_clipA]\<rparr>)"


section \<open>Overlay rendering: the component VideoPlayer\<close>

text \<open>
  The calls that \<open>renderCanvas\<close> makes on the 2D context, in order.  The loop over the
  points of a saved drawing carries the flag \<open>first\<close>; a point starts a new sub-path when
  the flag is set or its \<open>isStart\<close> is truthy.
\<close>

datatype canvas_op =
    ClearRect real real real real
  | StrokeStyle string
  | LineWidth real
  | LineCap string
  | LineJoin string
  | BeginPath
  | MoveTo real real
  | LineTo real real
  | Stroke

fun savedPath :: "real \<Rightarrow> real \<Rightarrow> bool \<Rightarrow> Point list \<Rightarrow> canvas_op list" where
  "savedPath w h first [] = []"
| "savedPath w h first (p # ps) =
     (let dx = pt_x p * w; dy = pt_y p * h
      in if first \<or> pt_isStart p = Some True
         then MoveTo dx dy # savedPath w h False ps
         else LineTo dx dy # Stroke # BeginPath # MoveTo dx dy # savedPath w h False ps)"


text \<open>The callback of \<open>drawings.forEach\<close>, for a canvas of size \<open>w\<close> by \<open>h\<close>.\<close>

definition renderDrawing :: "real \<Rightarrow> real \<Rightarrow> real \<Rightarrow> Drawing \<Rightarrow> canvas_op list" where
  "renderDrawing w h currentTime' drawing =
     (let tolerance = 0.5
      in if \<bar>d_time drawing - currentTime'\<bar> < tolerance
         then [StrokeStyle (d_color drawing), LineWidth (d_size drawing),
               LineCap ''round'', LineJoin ''round'', BeginPath]
              @ savedPath w h True (d_path drawing)
         else [])"


text \<open>
  The annotation markers of the JSX: \<open>videoRef.current && annotations.map(...)\<close>.  The
  callback returns \<open>null\<close> or a marker element, of which the key, the position in percent,
  the colour and the label are kept.
\<close>

record Marker =
  m_key :: string
  m_left :: real
  m_top :: real
  m_backgroundColor :: string
  m_label :: string

definition renderAnnotation :: "real \<Rightarrow> Annotation \<Rightarrow> Marker option" where
  "renderAnnotation currentTime' ann =
     (let timeDiff = \<bar>a_time ann - currentTime'\<bar>
      in if timeDiff > 0.5 then None
         else Some \<lparr>m_key = a_id ann, m_left = a_x ann * 100, m_top = a_y ann * 100,
                    m_backgroundColor = a_color ann, m_label = a_text ann\<rparr>)"

definition renderAnnotations :: "real option \<Rightarrow> Annotation list \<Rightarrow> Marker option list" where
  "renderAnnotations video annotations' =
     (case video of
        None \<Rightarrow> []
      | Some currentTime' \<Rightarrow> map (renderAnnotation currentTime') annotations')"

text \<open>
  What the context calls leave on the canvas.  The context belongs to a canvas whose bitmap
  is \<open>bitmap_w\<close> by \<open>bitmap_h\<close>, and holds the stroke style and line width, the current
  point and the segments of the current path.  \<open>ink\<close> lists the stroked segments; the
  bitmap shows the part of them that lies on it.  \<open>stroke\<close> inks the segments of the
  current path with the style and width of that moment, \<open>beginPath\<close> empties the path and
  \<open>lineTo\<close> without a current point only sets it.  \<open>clearRect\<close> erases what lies in its
  rectangle (normalised for a negative width or height): everything when the rectangle
  covers the bitmap, nothing when its width or height is zero, and otherwise the segments
  that lie wholly inside it, a segment that is only partly inside being kept.
\<close>

type_synonym segment = "(real \<times> real) \<times> (real \<times> real)"

record context2d =
  bitmap_w :: real
  bitmap_h :: real
  strokeStyle :: string
  lineWidth :: real
  lineCap :: string
  lineJoin :: string
  cursor :: "(real \<times> real) option"
  subpaths :: "segment list"
  ink :: "(string \<times> real \<times> segment) list"

definition within_rect :: "real \<Rightarrow> real \<Rightarrow> real \<Rightarrow> real \<Rightarrow> real \<times> real \<Rightarrow> bool" where
  "within_rect x0 y0 x1 y1 q \<longleftrightarrow> x0 \<le> fst q \<and> fst q \<le> x1 \<and> y0 \<le> snd q \<and> snd q \<le> y1"

definition clearRect :: "real \<Rightarrow> real \<Rightarrow> real \<Rightarrow> real \<Rightarrow> context2d \<Rightarrow> context2d" where
  "clearRect x y w h c =
     (let x0 = min x (x + w); x1 = max x (x + w);
          y0 = min y (y + h); y1 = max y (y + h)
      in if x0 \<le> 0 \<and> y0 \<le> 0 \<and> bitmap_w c \<le> x1 \<and> bitmap_h c \<le> y1 then c\<lparr>ink := []\<rparr>
         else if w = 0 \<or> h = 0 then c
         else c\<lparr>ink := filter (\<lambda>k. \<not> (within_rect x0 y0 x1 y1 (fst (snd (snd k)))
                                       \<and> within_rect x0 y0 x1 y1 (snd (snd (snd k)))))
                             (ink c)\<rparr>)"

fun paint_op :: "canvas_op \<Rightarrow> context2d \<Rightarrow> context2d" where
  "paint_op (ClearRect x y w h) c = clearRect x y w h c"
| "paint_op (StrokeStyle v) c = c\<lparr>strokeStyle := v\<rparr>"
| "paint_op (LineWidth v) c = c\<lparr>lineWidth := v\<rparr>"
| "paint_op (LineCap v) c = c\<lparr>lineCap := v\<rparr>"
| "paint_op (LineJoin v) c = c\<lparr>lineJoin := v\<rparr>"
| "paint_op BeginPath c = c\<lparr>cursor := None, subpaths := []\<rparr>"
| "paint_op (MoveTo x y) c = c\<lparr>cursor := Some (x, y)\<rparr>"
| "paint_op (LineTo x y) c =
     (case cursor c of
        None \<Rightarrow> c\<lparr>cursor := Some (x, y)\<rparr>
      | Some p \<Rightarrow> c\<lparr>cursor := Some (x, y), subpaths := subpaths c @ [(p, (x, y))]\<rparr>)"
| "paint_op Stroke c =
     c\<lparr>ink := ink c @ map (\<lambda>g. (strokeStyle c, lineWidth c, g)) (subpaths c)\<rparr>"

definition paint :: "canvas_op list \<Rightarrow> context2d \<Rightarrow> context2d" where
  "paint ops c = fold paint_op ops c"





text \<open>
  Sample data: a drawing of two strokes at time \<open>3.2\<close>, a drawing at time \<open>3.5\<close>, the
  context of a canvas of \<open>100\<close> by \<open>50\<close> with nothing drawn, the same context still
  showing the later drawing, and an annotation at time \<open>1.5\<close>.
\<close>

definition sample_drawing :: Drawing where
  "sample_drawing = \<lparr>d_id = ''5'', d_time = 3.2, d_color = ''#00ff00'', d_size = 3,
      d_path = [\<lparr>pt_x = 0.1, pt_y = 0.2, pt_isStart = Some True\<rparr>,
                \<lparr>pt_x = 0.2, pt_y = 0.2, pt_isStart = Some False\<rparr>,
                \<lparr>pt_x = 0.5, pt_y = 0.8, pt_isStart = Some True\<rparr>,
                \<lparr>pt_x = 0.6, pt_y = 0.8, pt_isStart = None\<rparr>]\<rparr>"




definition sample_annotation :: Annotation where
  "sample_annotation = \<lparr>a_id = ''1700000000000'', a_x = 1/4, a_y = 3/4, a_time = 1.5,
      a_text = ''X'', a_color = ''#ff0000''\<rparr>"

section \<open>Pointer capture and time updates: the handlers of VideoPlayer\<close>

text \<open>
  The video element behind \<open>videoRef\<close>, with the two properties the handlers read, and the
  local state of \<open>VideoPlayer\<close>.  The element has its own duration; the cell \<open>duration\<close> of
  \<open>App\<close> starts at \<open>0\<close> and is written only by \<open>onVideoTimeUpdate\<close>, which
  \<open>handleTimeUpdate\<close> calls when the element fires \<open>timeupdate\<close>.
\<close>

record videoElement =
  v_currentTime :: real
  v_duration :: real

record player =
  p_isDrawing :: bool
  p_currentPath :: "Point list"

definition handleTimeUpdate :: "videoElement option \<Rightarrow> app \<Rightarrow> app" where
  "handleTimeUpdate video s =
     (case video of
        None \<Rightarrow> s
      | Some v \<Rightarrow> onVideoTimeUpdate (v_currentTime v) (v_duration v) s)"

text \<open>
  \<open>handleStart\<close>, with the position that \<open>getNormalizedPos\<close> computed for the event, the
  answer of \<open>prompt\<close> and the string of \<open>Date.now()\<close> as inputs.
\<close>

definition handleStart ::
    "videoElement option \<Rightarrow> real \<times> real \<Rightarrow> string option \<Rightarrow> string \<Rightarrow> player \<times> app
       \<Rightarrow> player \<times> app" where
  "handleStart video pos prompt now ps =
     (let p = fst ps; s = snd ps
      in case activeClip s of
           Some c \<Rightarrow> (p, s)
         | None \<Rightarrow>
             (case video of
                None \<Rightarrow> (p, s)
              | Some v \<Rightarrow>
                  (case toolMode s of
                     point \<Rightarrow>
                       (p, handleAddAnnotation prompt now (fst pos) (snd pos) (v_currentTime v) s)
                   | pen \<Rightarrow>
                       (p\<lparr>p_isDrawing := True,
                          p_currentPath := [\<lparr>pt_x = fst pos, pt_y = snd pos,
                                             pt_isStart = Some True\<rparr>]\<rparr>, s))))"

text \<open>
  Sample data: a video element of ten seconds at its start, the player at rest, and the
  application right after that video was loaded.
\<close>

definition sample_element :: videoElement where
  "sample_element = \<lparr>v_currentTime = 0, v_duration = 10\<rparr>"

definition sample_player :: player where
  "sample_player = \<lparr>p_isDrawing = False, p_currentPath = []\<rparr>"

definition sample_fresh :: app where
  "sample_fresh = loadVideoFile \<lparr>f_name = ''v.mp4'', f_bytes = ''abc''\<rparr> init"

text \<open>
  Sample data for saving and loading: a state with a video and notes, the snapshot that
  \<open>saveAnalysis\<close> takes of it, and stand-ins for the libraries that know this one
  document (the archive file is represented by the entry list itself).
\<close>

definition sample_video :: File where
  "sample_video = \<lparr>f_name = ''v.mp4'', f_bytes = ''abc''\<rparr>"

definition sample_session :: app where
  "sample_session = (loadVideoFile sample_video init)\<lparr>notes := ''a'',
      annotations := [sample_annotation]\<rparr>"

definition sample_data :: AnalysisData where
  "sample_data = \<lparr>ad_notes = ''a'', ad_drawings = [], ad_annotations = [sample_annotation],
      ad_clips = [], primaryVideoFileName = Some ''v.mp4''\<rparr>"

definition sample_stringify :: "AnalysisData \<Rightarrow> bytes" where
  "sample_stringify d = ''{notes: a, annotations: [X], primaryVideoFileName: v.mp4}''"

definition sample_parse :: "bytes \<Rightarrow> AnalysisData option" where
  "sample_parse t =
     (if t = ''{notes: a, annotations: [X], primaryVideoFileName: v.mp4}''
      then Some sample_data else None)"


section \<open>Properties of point-mode capture\<close>

lemma handleAddAnnotation_labelled:
  assumes "text \<noteq> []"
  shows "handleAddAnnotation (Some text) now x y t s =
           s\<lparr>annotations := annotations s @
                [\<lparr>a_id = now, a_x = x, a_y = y, a_time = t, a_text = text,
                  a_color = brushColor s\<rparr>],
             clips := clips s @
                [\<lparr>c_id = now, c_name = text, c_startTime = t,
                  c_endTime = min (t + 2) (duration s),
                  c_duration = toFixed2 (min (t + 2) (duration s) - t), c_speed = 0.5,
                  c_x = x, c_y = y\<rparr>]\<rparr>"
  using assms by (simp add: handleAddAnnotation_def Let_def)

text \<open>
  With a non-empty label, \<open>handleAddAnnotation\<close> appends exactly one annotation and exactly
  one clip and changes nothing else.  The two share their id; the clip starts at \<open>T\<close>, ends
  at \<open>min (T + 2) (duration s)\<close> for the cell \<open>duration\<close> of the application, plays at speed
  \<open>0.5\<close> and has the annotation's position as zoom focus.
\<close>

lemma handleAddAnnotation_appends_pair:
  assumes "text \<noteq> []"
  shows "\<exists>a c. handleAddAnnotation (Some text) now x y T s =
                  s\<lparr>annotations := annotations s @ [a], clips := clips s @ [c]\<rparr>
           \<and> a_id a = c_id c
           \<and> a_x a = x \<and> a_y a = y \<and> a_time a = T \<and> a_text a = text
           \<and> c_startTime c = T
           \<and> c_endTime c = min (T + 2) (duration s)
           \<and> c_speed c = 0.5
           \<and> c_x c = a_x a \<and> c_y c = a_y a"
  by (intro exI conjI, rule handleAddAnnotation_labelled [OF assms]) simp_all

text \<open>
  Once the element has fired \<open>timeupdate\<close>, the cell holds the duration of the video, and a
  point-mode capture (no clip active) clamps the clip to it.
\<close>

lemma capture_after_time_update:
  assumes "activeClip s = None" and "toolMode s = point" and "text \<noteq> []"
  shows "snd (handleStart (Some v) (x, y) (Some text) now (p, handleTimeUpdate (Some v) s))
           = (handleTimeUpdate (Some v) s)
               \<lparr>annotations := annotations s @
                  [\<lparr>a_id = now, a_x = x, a_y = y, a_time = v_currentTime v, a_text = text,
                    a_color = brushColor s\<rparr>],
                clips := clips s @
                  [\<lparr>c_id = now, c_name = text, c_startTime = v_currentTime v,
                    c_endTime = min (v_currentTime v + 2) (v_duration v),
                    c_duration = toFixed2 (min (v_currentTime v + 2) (v_duration v) - v_currentTime v),
                    c_speed = 0.5, c_x = x, c_y = y\<rparr>]\<rparr>"
proof -
  have "activeClip (handleTimeUpdate (Some v) s) = None"
    using assms(1)
    by (simp add: handleTimeUpdate_def onVideoTimeUpdate_def activeClip_def split: option.splits)
  then show ?thesis
    using assms(2,3)
    by (simp add: handleStart_def handleAddAnnotation_labelled handleTimeUpdate_def
        onVideoTimeUpdate_def)
qed

text \<open>
  C2 claims that the clip of a point-mode capture at time \<open>T\<close> ends at
  \<open>min (T + 2) videoDuration\<close>.  \<open>handleAddAnnotation\<close> clamps to the cell \<open>duration\<close>, which
  is still \<open>0\<close> when a video has just been loaded and has not yet fired \<open>timeupdate\<close>.  Here:
  a video of ten seconds, just loaded and at time \<open>0\<close>, point mode, label \<open>X\<close>.  One
  annotation and one clip are appended, sharing the id, with start \<open>0\<close>, speed \<open>0.5\<close> and
  the position as focus, but the clip ends at \<open>0\<close> and not at \<open>min (0 + 2) 10 = 2\<close>.
\<close>

theorem C2_fresh_video_clip_end:
  "duration sample_fresh = 0
   \<and> min (v_currentTime sample_element + 2) (v_duration sample_element) = 2
   \<and> snd (handleStart (Some sample_element) (1/4, 3/4) (Some ''X'') ''1700000000000''
            (sample_player, sample_fresh))
       = sample_fresh
           \<lparr>annotations := [\<lparr>a_id = ''1700000000000'', a_x = 1/4, a_y = 3/4, a_time = 0,
                              a_text = ''X'', a_color = ''#ff0000''\<rparr>],
            clips := [\<lparr>c_id = ''1700000000000'', c_name = ''X'', c_startTime = 0,
                        c_endTime = 0, c_duration = 0, c_speed = 0.5,
                        c_x = 1/4, c_y = 3/4\<rparr>]\<rparr>"
  by (simp add: handleStart_def handleAddAnnotation_def activeClip_def sample_fresh_def
      sample_element_def loadVideoFile_def init_def toFixed2_def Let_def)

text \<open>
  C9.  When the label prompt is dismissed (\<open>null\<close>) or answered with the empty string, the
  capture is abandoned: the whole state is returned as it was, so no annotation and no clip
  is created, nothing else changes and no \<open>alert\<close> is shown.
\<close>

theorem C9_no_label_no_record:
  assumes "prompt = None \<or> prompt = Some []"
  shows "handleAddAnnotation prompt now x y T s = s"
  using assms by (auto simp: handleAddAnnotation_def)

theorem C9_no_label_no_record_witness:
  "handleAddAnnotation None ''1700000000000'' (1/4) (3/4) (19/2) (init\<lparr>duration := 10\<rparr>)
     = init\<lparr>duration := 10\<rparr>
   \<and> handleAddAnnotation (Some []) ''1700000000000'' (1/4) (3/4) (19/2) (init\<lparr>duration := 10\<rparr>)
     = init\<lparr>duration := 10\<rparr>"
  using C9_no_label_no_record [of None "''1700000000000''" "1/4" "3/4" "19/2" "init\<lparr>duration := 10\<rparr>"]
        C9_no_label_no_record [of "Some []" "''1700000000000''" "1/4" "3/4" "19/2" "init\<lparr>duration := 10\<rparr>"]
  by simp

lemma toFixed2_near: "\<bar>toFixed2 v - v\<bar> \<le> 1 / 200"
proof -
  have near: "\<bar>of_int \<lfloor>w * 100 + 1 / 2\<rfloor> / 100 - w\<bar> \<le> 1 / 200" for w :: real
  proof -
    define n where "n = \<lfloor>w * 100 + 1 / 2\<rfloor>"
    have "of_int n \<le> w * 100 + 1 / 2" and "w * 100 + 1 / 2 < of_int n + 1"
      unfolding n_def by linarith+
    then have "\<bar>of_int n / 100 - w\<bar> \<le> 1 / 200"
      by linarith
    then show ?thesis by (simp add: n_def)
  qed
  show ?thesis
  proof (cases "10 ^ 21 \<le> \<bar>v\<bar>")
    case True
    then show ?thesis by (simp add: toFixed2_def)
  next
    case big: False
    show ?thesis
    proof (cases "v < 0")
      case True
      have "\<bar>toFixed2 v - v\<bar> = \<bar>of_int \<lfloor>(- v) * 100 + 1 / 2\<rfloor> / 100 - (- v)\<bar>"
        using big True by (simp add: toFixed2_def abs_if)
      then show ?thesis using near [of "- v"] by simp
    next
      case False
      then show ?thesis using big near [of v] by (simp add: toFixed2_def)
    qed
  qed
qed

text \<open>
  C8, as stated: the stored duration of a created clip equals \<open>endTime - startTime\<close>.
  It fails for a capture at \<open>9.996\<close> in a video of duration \<open>10\<close>: the clip runs from
  \<open>9.996\<close> to \<open>10\<close> and its stored duration is \<open>0\<close>, not \<open>0.004\<close>.
\<close>

theorem C8_duration_exact_counterexample:
  "c_duration (last (clips (handleAddAnnotation (Some ''X'') ''1700000000000'' (1/4) (3/4)
        (2499/250) (init\<lparr>duration := 10\<rparr>))))
   \<noteq> c_endTime (last (clips (handleAddAnnotation (Some ''X'') ''1700000000000'' (1/4) (3/4)
        (2499/250) (init\<lparr>duration := 10\<rparr>))))
     - c_startTime (last (clips (handleAddAnnotation (Some ''X'') ''1700000000000'' (1/4) (3/4)
        (2499/250) (init\<lparr>duration := 10\<rparr>))))"
  by (simp add: handleAddAnnotation_def init_def toFixed2_def Let_def)

text \<open>
  C8, amended: the clip appended by a point-mode capture stores as its duration the value
  of \<open>endTime - startTime\<close> rounded to two decimals (\<open>toFixed(2)\<close>), which is within
  \<open>0.005\<close> of the difference.
\<close>

theorem C8_duration_rounded:
  assumes "text \<noteq> []"
  shows "c_duration (last (clips (handleAddAnnotation (Some text) now x y T s)))
           = toFixed2 (c_endTime (last (clips (handleAddAnnotation (Some text) now x y T s)))
                       - c_startTime (last (clips (handleAddAnnotation (Some text) now x y T s))))
         \<and> \<bar>c_duration (last (clips (handleAddAnnotation (Some text) now x y T s)))
             - (c_endTime (last (clips (handleAddAnnotation (Some text) now x y T s)))
                - c_startTime (last (clips (handleAddAnnotation (Some text) now x y T s))))\<bar>
           \<le> 1 / 200"
  using toFixed2_near [of "min (T + 2) (duration s) - T"]
  by (simp add: handleAddAnnotation_labelled [OF assms])

theorem C8_duration_rounded_witness:
  "c_duration (last (clips (handleAddAnnotation (Some ''X'') ''1700000000000'' (1/4) (3/4)
        (2499/250) (init\<lparr>duration := 10\<rparr>)))) = 0
   \<and> toFixed2 (c_endTime (last (clips (handleAddAnnotation (Some ''X'') ''1700000000000'' (1/4) (3/4)
        (2499/250) (init\<lparr>duration := 10\<rparr>))))
     - c_startTime (last (clips (handleAddAnnotation (Some ''X'') ''1700000000000'' (1/4) (3/4)
        (2499/250) (init\<lparr>duration := 10\<rparr>))))) = 0"
  using C8_duration_rounded [of "''X''" "''1700000000000''" "1/4" "3/4" "2499/250" "init\<lparr>duration := 10\<rparr>"]
  by (simp add: handleAddAnnotation_def init_def toFixed2_def Let_def)

section \<open>Properties of clip playback\<close>

lemma clearClipTimeout_fields [simp]:
  "activeClipId (clearClipTimeout s) = activeClipId s"
  "clipTimeoutRef (clearClipTimeout s) = clipTimeoutRef s"
  "timerSeq (clearClipTimeout s) = timerSeq s"
  "fired (clearClipTimeout s) = fired s"
  "clips (clearClipTimeout s) = clips s"
  "isPlaying (clearClipTimeout s) = isPlaying s"
  "playbackRate (clearClipTimeout s) = playbackRate s"
  by (simp_all add: clearClipTimeout_def clearTimeout_def split: option.splits)

lemma clearClipTimeout_subset: "set (timers (clearClipTimeout s)) \<subseteq> set (timers s)"
  by (auto simp: clearClipTimeout_def clearTimeout_def split: option.splits)

lemma clearClipTimeout_cancels:
  assumes "timer_inv s"
  shows "timers (clearClipTimeout s) = []"
proof (cases "clipTimeoutRef s")
  case None
  with assms have "timers s = []"
    by (cases "timers s") (auto simp: timer_inv_def)
  with None show ?thesis by (simp add: clearClipTimeout_def)
next
  case (Some h)
  show ?thesis
  proof (cases "h = 0")
    case True
    with Some assms have "timers s = []"
      by (cases "timers s") (auto simp: timer_inv_def)
    with Some True show ?thesis by (simp add: clearClipTimeout_def)
  next
    case False
    have "\<forall>t \<in> set (timers s). fst t = h"
      using assms Some by (auto simp: timer_inv_def)
    then have "filter (\<lambda>t. fst t \<noteq> h) (timers s) = []"
      by (simp add: filter_empty_conv)
    with Some False show ?thesis by (simp add: clearClipTimeout_def clearTimeout_def)
  qed
qed

lemma clearClipTimeout_unchanged_after:
  assumes "timers s = []"
  shows "clearClipTimeout s = s"
  using assms by (simp add: clearClipTimeout_def clearTimeout_def split: option.splits)

lemma timer_inv_init: "timer_inv init"
  by (simp add: timer_inv_def init_def)

lemma timer_inv_clear: "timer_inv s \<Longrightarrow> timer_inv (clearClipTimeout s)"
  using clearClipTimeout_subset [of s] by (auto simp: timer_inv_def)

lemma timer_inv_stopClip: "timer_inv s \<Longrightarrow> timer_inv (stopClip s)"
  using timer_inv_clear [of s] by (simp add: stopClip_def timer_inv_def Let_def)

lemma timer_inv_playClip:
  assumes "timer_inv s"
  shows "timer_inv (playClip clip s)"
  using assms clearClipTimeout_cancels [OF assms]
  by (auto simp: playClip_def setTimeout_def timer_inv_def Let_def)

lemma timer_inv_timerFires: "timer_inv s \<Longrightarrow> timer_inv (timerFires h s)"
proof -
  assume i: "timer_inv s"
  have "timer_inv (s\<lparr>timers := filter (\<lambda>t. fst t \<noteq> h) (timers s), fired := fired s @ [h]\<rparr>)"
    if "h \<in> set (map fst (timers s))"
    using i that by (auto simp: timer_inv_def)
  then show ?thesis
    using i by (auto simp: timerFires_def intro: timer_inv_stopClip)
qed

lemma timer_inv_frame:
  assumes "timer_inv s" "timers s' = timers s" "clipTimeoutRef s' = clipTimeoutRef s"
    "timerSeq s' = timerSeq s" "fired s' = fired s"
  shows "timer_inv s'"
  using assms by (simp add: timer_inv_def)

lemma timer_inv_step:
  assumes "timer_inv s"
  shows "timer_inv (step la pj e s)"
proof (cases e)
  case (PlayClip c)
  then show ?thesis using assms by (simp add: timer_inv_playClip)
next
  case StopClip
  then show ?thesis using assms by (simp add: timer_inv_stopClip)
next
  case (TimerFires h)
  then show ?thesis using assms by (simp add: timer_inv_timerFires)
next
  case (DeleteClip i)
  have "timer_inv (if activeClipId s = Some i then stopClip s else s)"
    using assms by (simp add: timer_inv_stopClip)
  then show ?thesis
    using DeleteClip by (simp add: onDeleteClip_def Let_def timer_inv_def)
next
  case (AddAnnotation p n x y t)
  then show ?thesis using assms
    by (auto simp: handleAddAnnotation_def Let_def timer_inv_def split: option.splits)
next
  case (ZipUpload f)
  then show ?thesis using assms
    by (auto simp: handleZipUpload_def loadVideoFile_def loadFailed_def Let_def timer_inv_def
        split: option.splits)
next
  case (VideoUpload f)
  then show ?thesis using assms
    by (auto simp: handleVideoUpload_def loadVideoFile_def timer_inv_def split: option.splits)
next
  case (ClearAll b)
  then show ?thesis using assms by (auto simp: onClearAll_def timer_inv_def)
qed (use assms in \<open>simp_all add: onDeleteAnnotation_def onAddDrawing_def
       onVideoTimeUpdate_def timer_inv_def\<close>)

lemma timer_inv_run: "timer_inv s \<Longrightarrow> timer_inv (run la pj es s)"
  by (induction es arbitrary: s) (simp_all add: timer_inv_step)

text \<open>Every state of a run from the initial state keeps the timer bookkeeping.\<close>

lemma timer_inv_reachable: "timer_inv (run la pj es init)"
  by (rule timer_inv_run [OF timer_inv_init])


lemma spent_clear: "spent h s \<Longrightarrow> spent h (clearClipTimeout s)"
  using clearClipTimeout_subset [of s] by (auto simp: spent_def)

lemma fired_stopClip [simp]: "fired (stopClip s) = fired s"
  by (simp add: stopClip_def Let_def)

lemma spent_stopClip: "spent h s \<Longrightarrow> spent h (stopClip s)"
  using spent_clear [of h s] by (simp add: stopClip_def Let_def spent_def)

lemma fired_playClip [simp]: "fired (playClip c s) = fired s"
  by (simp add: playClip_def setTimeout_def Let_def)

lemma spent_playClip: "spent h s \<Longrightarrow> spent h (playClip c s)"
  using spent_clear [of h s] by (auto simp: playClip_def setTimeout_def Let_def spent_def)

lemma spent_timerFires:
  assumes "spent h s"
  shows "spent h (timerFires k s) \<and> (h \<in> set (fired (timerFires k s)) \<longleftrightarrow> h \<in> set (fired s))"
proof (cases "k \<in> set (map fst (timers s))")
  case True
  with assms have "k \<noteq> h" by (auto simp: spent_def)
  moreover have "spent h (s\<lparr>timers := filter (\<lambda>t. fst t \<noteq> k) (timers s), fired := fired s @ [k]\<rparr>)"
    using assms by (auto simp: spent_def)
  ultimately show ?thesis
    using True by (auto simp: timerFires_def dest: spent_stopClip)
next
  case False
  with assms show ?thesis by (simp add: timerFires_def)
qed

lemma spent_step:
  assumes "spent h s"
  shows "spent h (step la pj e s) \<and> (h \<in> set (fired (step la pj e s)) \<longleftrightarrow> h \<in> set (fired s))"
proof (cases e)
  case (PlayClip c)
  then show ?thesis using assms by (simp add: spent_playClip)
next
  case StopClip
  then show ?thesis using assms by (simp add: spent_stopClip)
next
  case (TimerFires k)
  then show ?thesis using spent_timerFires [OF assms, of k] by simp
next
  case (DeleteClip i)
  have "spent h (if activeClipId s = Some i then stopClip s else s)"
    using assms by (simp add: spent_stopClip)
  then show ?thesis
    using DeleteClip by (simp add: onDeleteClip_def Let_def spent_def)
next
  case (AddAnnotation p n x y t)
  then show ?thesis using assms
    by (auto simp: handleAddAnnotation_def Let_def spent_def split: option.splits)
next
  case (ZipUpload f)
  then show ?thesis using assms
    by (auto simp: handleZipUpload_def loadVideoFile_def loadFailed_def Let_def spent_def
        split: option.splits)
next
  case (VideoUpload f)
  then show ?thesis using assms
    by (auto simp: handleVideoUpload_def loadVideoFile_def spent_def split: option.splits)
next
  case (ClearAll b)
  then show ?thesis using assms by (auto simp: onClearAll_def spent_def)
qed (use assms in \<open>simp_all add: onDeleteAnnotation_def onAddDrawing_def
       onVideoTimeUpdate_def spent_def\<close>)

lemma spent_run:
  assumes "spent h s"
  shows "spent h (run la pj es s) \<and> (h \<in> set (fired (run la pj es s)) \<longleftrightarrow> h \<in> set (fired s))"
  using assms
proof (induction es arbitrary: s)
  case Nil
  then show ?case by simp
next
  case (Cons e es)
  from spent_step [OF Cons.prems, of la pj e]
  have a: "spent h (step la pj e s)"
    and b: "h \<in> set (fired (step la pj e s)) \<longleftrightarrow> h \<in> set (fired s)" by simp_all
  from Cons.IH [OF a] b show ?case by simp
qed

lemma playClip_result:
  assumes "timer_inv s"
  shows "playClip A s =
           (clearClipTimeout s)\<lparr>activeClipId := Some (c_id A), playbackRate := c_speed A,
              seekTimestamp := Some (c_startTime A), isPlaying := True,
              timers := [(Suc (timerSeq s),
                          map_option (\<lambda>q. q * 1000) (js_div (c_endTime A - c_startTime A) (c_speed A)))],
              timerSeq := Suc (timerSeq s),
              clipTimeoutRef := Some (Suc (timerSeq s))\<rparr>"
  using clearClipTimeout_cancels [OF assms]
  by (simp add: playClip_def setTimeout_def Let_def)

lemma filter_unique_key:
  assumes "distinct (map f xs)" and "a \<in> set xs"
  shows "filter (\<lambda>c. f c = f a) xs = [a]"
  using assms
proof (induction xs)
  case Nil
  then show ?case by simp
next
  case (Cons c cs)
  show ?case
  proof (cases "c = a")
    case True
    have "\<forall>c' \<in> set cs. f c' \<noteq> f a"
      using Cons.prems(1) True by (auto simp: image_iff)
    then have "filter (\<lambda>c. f c = f a) cs = []"
      by (simp add: filter_empty_conv)
    with True show ?thesis by simp
  next
    case False
    with Cons.prems have "a \<in> set cs" and "f c \<noteq> f a" by auto
    with Cons show ?thesis by simp
  qed
qed

lemma sample_playingB_eq:
  "sample_playingB =
     init\<lparr>duration := 10, clips := [sample_clipB, sample_clipA], activeClipId := Some ''1'',
          playbackRate := 0.5, seekTimestamp := Some 2, isPlaying := True,
          timers := [(1, Some 4000)], timerSeq := 1, clipTimeoutRef := Some 1\<rparr>"
  by (simp add: sample_playingB_def playClip_def clearClipTimeout_def setTimeout_def js_div_def
      sample_clipB_def init_def)

lemma timer_inv_sample: "timer_inv sample_playingB"
  by (simp add: sample_playingB_eq timer_inv_def init_def)

text \<open>
  C5.  Let clip \<open>B\<close> be active with a pending auto-stop timer \<open>hB\<close>, and let \<open>playClip\<close> be
  invoked for a clip \<open>A\<close> (of non-zero speed).  The first statement of \<open>playClip\<close> cancels
  the pending timer while \<open>B\<close> is still the active clip, and the result is built from that
  state.  Afterwards the active-clip reference is \<open>A\<close>'s id, so that, ids being distinct,
  \<open>A\<close> is the one clip of the list shown as playing; the only pending timer is the new one,
  held by \<open>clipTimeoutRef\<close> and armed with \<open>(endTime - startTime) / speed\<close> seconds, which is
  that number times \<open>1000\<close> in the milliseconds of \<open>setTimeout\<close>; and in no continuation of
  the run does \<open>B\<close>'s timer become pending again or run its callback.
\<close>

theorem C5_playClip_supersedes:
  assumes "timer_inv s"
    and "activeClipId s = Some (c_id B)"
    and "(hB, dB) \<in> set (timers s)"
    and "c_speed A \<noteq> 0"
  shows "timers (clearClipTimeout s) = []
       \<and> activeClipId (clearClipTimeout s) = Some (c_id B)
       \<and> playClip A s =
           (clearClipTimeout s)\<lparr>activeClipId := Some (c_id A), playbackRate := c_speed A,
              seekTimestamp := Some (c_startTime A), isPlaying := True,
              timers := [(Suc (timerSeq s), Some ((c_endTime A - c_startTime A) / c_speed A * 1000))],
              timerSeq := Suc (timerSeq s),
              clipTimeoutRef := Some (Suc (timerSeq s))\<rparr>
       \<and> activeClipId (playClip A s) = Some (c_id A)
       \<and> (A \<in> set (clips s) \<and> distinct (map c_id (clips s)) \<longrightarrow>
            filter (clipIsPlaying (playClip A s)) (clips (playClip A s)) = [A])
       \<and> timers (playClip A s) =
           [(Suc (timerSeq s), Some ((c_endTime A - c_startTime A) / c_speed A * 1000))]
       \<and> clipTimeoutRef (playClip A s) = Some (Suc (timerSeq s))
       \<and> hB \<noteq> Suc (timerSeq s)
       \<and> (\<forall>es. hB \<notin> set (fired (run la pj es (playClip A s)))
               \<and> hB \<notin> set (map fst (timers (run la pj es (playClip A s)))))"
proof -
  have r: "playClip A s =
           (clearClipTimeout s)\<lparr>activeClipId := Some (c_id A), playbackRate := c_speed A,
              seekTimestamp := Some (c_startTime A), isPlaying := True,
              timers := [(Suc (timerSeq s), Some ((c_endTime A - c_startTime A) / c_speed A * 1000))],
              timerSeq := Suc (timerSeq s),
              clipTimeoutRef := Some (Suc (timerSeq s))\<rparr>"
    using assms(4) by (simp add: playClip_result [OF assms(1)] js_div_def)
  have hB: "hB \<le> timerSeq s" "hB \<notin> set (fired s)"
    using assms(1,3) by (auto simp: timer_inv_def)
  have "spent hB (playClip A s)"
    using hB(1) by (simp add: r spent_def)
  then have later: "hB \<notin> set (fired (run la pj es (playClip A s)))
               \<and> hB \<notin> set (map fst (timers (run la pj es (playClip A s))))" for es
    using spent_run [of hB "playClip A s" la pj es] hB(2) by (simp add: spent_def)
  have one: "filter (clipIsPlaying (playClip A s)) (clips (playClip A s)) = [A]"
    if "A \<in> set (clips s)" "distinct (map c_id (clips s))"
  proof -
    have "clipIsPlaying (playClip A s) = (\<lambda>c. c_id c = c_id A)"
      by (auto simp: r clipIsPlaying_def fun_eq_iff)
    moreover have "clips (playClip A s) = clips s"
      by (simp add: r)
    ultimately show ?thesis using filter_unique_key [OF that(2,1)] by simp
  qed
  have first: "timers (clearClipTimeout s) = []"
    by (rule clearClipTimeout_cancels [OF assms(1)])
  have still: "activeClipId (clearClipTimeout s) = Some (c_id B)"
    using assms(2) by simp
  have after: "activeClipId (playClip A s) = Some (c_id A)"
    "timers (playClip A s) =
       [(Suc (timerSeq s), Some ((c_endTime A - c_startTime A) / c_speed A * 1000))]"
    "clipTimeoutRef (playClip A s) = Some (Suc (timerSeq s))"
    by (simp_all add: r)
  have fresh: "hB \<noteq> Suc (timerSeq s)" using hB(1) by simp
  from first still r after one fresh later show ?thesis by blast
qed

theorem C5_playClip_supersedes_witness:
  "activeClipId sample_playingB = Some (c_id sample_clipB)
   \<and> timers sample_playingB = [(1, Some 4000)]
   \<and> activeClipId (playClip sample_clipA sample_playingB) = Some ''2''
   \<and> filter (clipIsPlaying (playClip sample_clipA sample_playingB))
        (clips (playClip sample_clipA sample_playingB)) = [sample_clipA]
   \<and> timers (playClip sample_clipA sample_playingB) = [(2, Some 2000)]
   \<and> clipTimeoutRef (playClip sample_clipA sample_playingB) = Some 2
   \<and> (\<forall>es. 1 \<notin> set (fired (run (\<lambda>f::unit. None) (\<lambda>t. None) es
                                (playClip sample_clipA sample_playingB))))"
proof -
  have pre: "activeClipId sample_playingB = Some (c_id sample_clipB)"
    "(1, Some 4000) \<in> set (timers sample_playingB)"
    "c_speed sample_clipA \<noteq> 0"
    by (simp_all add: sample_playingB_eq sample_clipA_def sample_clipB_def)
  have lst: "sample_clipA \<in> set (clips sample_playingB)"
    "distinct (map c_id (clips sample_playingB))"
    by (simp_all add: sample_playingB_eq sample_clipA_def sample_clipB_def)
  have vals: "c_id sample_clipA = ''2''"
    "(c_endTime sample_clipA - c_startTime sample_clipA) / c_speed sample_clipA * 1000 = 2000"
    "timerSeq sample_playingB = 1"
    "timers sample_playingB = [(1, Some 4000)]"
    by (simp_all add: sample_clipA_def sample_playingB_eq)
  note th = C5_playClip_supersedes [OF timer_inv_sample pre, of "\<lambda>f::unit. None" "\<lambda>t. None"]
  have w1: "activeClipId (playClip sample_clipA sample_playingB) = Some ''2''"
    using th vals(1) by simp
  have w2: "filter (clipIsPlaying (playClip sample_clipA sample_playingB))
        (clips (playClip sample_clipA sample_playingB)) = [sample_clipA]"
    using th lst by blast
  have w3: "timers (playClip sample_clipA sample_playingB) = [(2, Some 2000)]"
    using th vals(2,3) by simp
  have w4: "clipTimeoutRef (playClip sample_clipA sample_playingB) = Some 2"
    using th vals(3) by simp
  have w5: "\<forall>es. 1 \<notin> set (fired (run (\<lambda>f::unit. None) (\<lambda>t. None) es
                                (playClip sample_clipA sample_playingB)))"
    using th by blast
  from pre(1) vals(4) w1 w2 w3 w4 w5 show ?thesis by blast
qed

text \<open>
  C10.  Deleting a clip id that is not the active one (in particular when no clip is active)
  returns the state with the clips of that id filtered out of the collection, the others
  kept in order, and with every other component as it was: annotations, drawings, notes,
  the active-clip reference, the playback rate, the playing flag and the pending timer.
\<close>

theorem C10_delete_inactive_clip:
  assumes "activeClipId s \<noteq> Some i"
  shows "onDeleteClip i s = s\<lparr>clips := filter (\<lambda>c. c_id c \<noteq> i) (clips s)\<rparr>"
  using assms by (simp add: onDeleteClip_def)

theorem C10_delete_inactive_clip_witness:
  "activeClipId sample_playingB \<noteq> Some ''2''
   \<and> onDeleteClip ''2'' sample_playingB = sample_playingB\<lparr>clips := [sample_clipB]\<rparr>"
  using C10_delete_inactive_clip [of sample_playingB "''2''"]
  by (simp add: sample_playingB_eq sample_clipA_def sample_clipB_def)






section \<open>Properties of the overlay\<close>


lemma paint_Nil [simp]: "paint [] c = c"
  by (simp add: paint_def)








lemma clearRect_empty_rectangle:
  assumes "0 < bitmap_w c \<or> 0 < bitmap_h c"
  shows "clearRect x y 0 0 c = c"
  using assms by (auto simp: clearRect_def)



lemma renderAnnotation_shown:
  "renderAnnotation t a \<noteq> None \<longleftrightarrow> \<bar>a_time a - t\<bar> \<le> 0.5"
  by (auto simp: renderAnnotation_def)

text \<open>
  C3 claims that a marker is rendered if and only if \<open>\<bar>a_time a - t\<bar> < 0.5\<close>.  The marker
  callback hides a marker only when the distance exceeds \<open>0.5\<close>, so at a distance of
  exactly \<open>0.5\<close> the marker is rendered, while the drawing loop of \<open>renderCanvas\<close> omits a
  drawing at that distance.  Here: an annotation and a drawing, both at time \<open>1.5\<close>, at
  playback time \<open>1\<close>.
\<close>

theorem C3_marker_at_boundary:
  "\<not> \<bar>a_time sample_annotation - 1\<bar> < 0.5
   \<and> renderAnnotations (Some 1) [sample_annotation]
       = [Some \<lparr>m_key = ''1700000000000'', m_left = 25, m_top = 75,
                 m_backgroundColor = ''#ff0000'', m_label = ''X''\<rparr>]
   \<and> renderDrawing 100 50 1 (sample_drawing\<lparr>d_time := 1.5\<rparr>) = []"
  by (simp add: renderAnnotations_def renderAnnotation_def renderDrawing_def
      sample_annotation_def sample_drawing_def)

section \<open>Properties of saving and loading\<close>

lemma handleZipUpload_unreadable:
  assumes "loadAsync f = None"
  shows "handleZipUpload loadAsync parse (Some f) s = loadFailed s"
  using assms by (simp add: handleZipUpload_def)

lemma handleZipUpload_malformed_json:
  assumes "loadAsync f = Some z" and "map_of z ''analysis_data.json'' = Some t"
    and "parse t = None"
  shows "handleZipUpload loadAsync parse (Some f) s = loadFailed s"
  using assms by (simp add: handleZipUpload_def)

lemma loadFailed_store:
  "loadFailed s = s\<lparr>consoleErrors := consoleErrors s + 1,
                     alerts := alerts s @ [''Failed to load analysis file.'']\<rparr>"
  by (simp add: loadFailed_def)

lemma handleZipUpload_video_missing:
  assumes "loadAsync f = Some z" and "map_of z ''analysis_data.json'' = Some t"
    and "parse t = Some d" and "primaryVideoFileName d = Some n" and "n \<noteq> []"
    and "map_of z n = None"
  shows "handleZipUpload loadAsync parse (Some f) s =
           s\<lparr>notes := ad_notes d, drawings := ad_drawings d, annotations := ad_annotations d,
             clips := ad_clips d,
             alerts := alerts s @
               [''Analysis loaded, but the video file was missing in the archive.'']\<rparr>"
  using assms by (simp add: handleZipUpload_def)

lemma handleZipUpload_with_video:
  assumes "loadAsync f = Some z" and "map_of z ''analysis_data.json'' = Some t"
    and "parse t = Some d" and "primaryVideoFileName d = Some n" and "n \<noteq> []"
    and "map_of z n = Some v"
  shows "handleZipUpload loadAsync parse (Some f) s =
           s\<lparr>videoSrc := Some \<lparr>f_name = n, f_bytes = v\<rparr>, videoFileName := Some n,
             videoFile := Some \<lparr>f_name = n, f_bytes = v\<rparr>,
             drawings := [], annotations := [], clips := [], notes := []\<rparr>"
  using assms by (simp add: handleZipUpload_def loadVideoFile_def)

text \<open>
  C1 claims that loading what \<open>saveAnalysis\<close> wrote reproduces the notes and the four
  collections.  \<open>saveAnalysis\<close> always names and stores the video, so \<open>handleZipUpload\<close>,
  having applied the loaded notes and collections, goes on to \<open>loadVideoFile\<close>, whose last
  statements reset them.  With libraries that lose nothing on this document, and a video not
  itself stored under the name of the JSON entry, the state after the import has the saved
  video name and bytes, empty notes and empty collections, whatever was saved.
\<close>

theorem C1_import_of_export_resets:
  assumes "videoFile s = Some vf"
    and "name = (case videoFileName s of
                   None \<Rightarrow> ''video.mp4''
                 | Some n \<Rightarrow> if n = [] then ''video.mp4'' else n)"
    and "name \<noteq> ''analysis_data.json''"
    and "parse (stringify \<lparr>ad_notes = notes s, ad_drawings = drawings s,
                            ad_annotations = annotations s, ad_clips = clips s,
                            primaryVideoFileName = Some name\<rparr>)
           = Some \<lparr>ad_notes = notes s, ad_drawings = drawings s,
                    ad_annotations = annotations s, ad_clips = clips s,
                    primaryVideoFileName = Some name\<rparr>"
    and "\<And>z. loadAsync (generateAsync z) = Some z"
  shows "handleZipUpload loadAsync parse (saveAnalysis stringify generateAsync s) old =
           old\<lparr>videoSrc := Some \<lparr>f_name = name, f_bytes = f_bytes vf\<rparr>,
              videoFileName := Some name,
              videoFile := Some \<lparr>f_name = name, f_bytes = f_bytes vf\<rparr>,
              drawings := [], annotations := [], clips := [], notes := []\<rparr>"
proof -
  let ?data = "\<lparr>ad_notes = notes s, ad_drawings = drawings s,
                  ad_annotations = annotations s, ad_clips = clips s,
                  primaryVideoFileName = Some name\<rparr>"
  let ?z = "AList.update name (f_bytes vf)
              (AList.update ''analysis_data.json'' (stringify ?data) [])"
  have nonempty: "name \<noteq> []"
    using assms(2) by (simp split: option.splits)
  have saved: "saveAnalysis stringify generateAsync s = Some (generateAsync ?z)"
    using assms(1,2) by (simp add: saveAnalysis_def Let_def)
  have json: "map_of ?z ''analysis_data.json'' = Some (stringify ?data)"
    using assms(3) by (simp add: update_conv')
  have video: "map_of ?z name = Some (f_bytes vf)"
    by (simp add: update_conv')
  show ?thesis
    unfolding saved
    using handleZipUpload_with_video [where loadAsync = loadAsync and f = "generateAsync ?z"
        and z = ?z and t = "stringify ?data" and parse = parse and d = ?data and n = name
        and v = "f_bytes vf" and s = old]
      assms(4,5) json nonempty video
    by simp
qed

theorem C1_import_of_export_resets_witness:
  "notes sample_session = ''a''
   \<and> annotations sample_session = [sample_annotation]
   \<and> saveAnalysis sample_stringify (\<lambda>z. z) sample_session
       = Some [(''analysis_data.json'', ''{notes: a, annotations: [X], primaryVideoFileName: v.mp4}''),
               (''v.mp4'', ''abc'')]
   \<and> handleZipUpload Some sample_parse
        (saveAnalysis sample_stringify (\<lambda>z. z) sample_session) init
       = init\<lparr>videoSrc := Some sample_video, videoFileName := Some ''v.mp4'',
              videoFile := Some sample_video,
              drawings := [], annotations := [], clips := [], notes := []\<rparr>"
proof -
  have pre: "videoFile sample_session = Some sample_video"
    "videoFileName sample_session = Some ''v.mp4''"
    "notes sample_session = ''a''" "drawings sample_session = []"
    "annotations sample_session = [sample_annotation]" "clips sample_session = []"
    by (simp_all add: sample_session_def loadVideoFile_def sample_video_def)
  have codec: "sample_parse (sample_stringify \<lparr>ad_notes = notes sample_session,
        ad_drawings = drawings sample_session, ad_annotations = annotations sample_session,
        ad_clips = clips sample_session, primaryVideoFileName = Some ''v.mp4''\<rparr>)
      = Some \<lparr>ad_notes = notes sample_session,
        ad_drawings = drawings sample_session, ad_annotations = annotations sample_session,
        ad_clips = clips sample_session, primaryVideoFileName = Some ''v.mp4''\<rparr>"
    by (simp add: pre sample_parse_def sample_stringify_def sample_data_def)
  have name: "(case videoFileName sample_session of
                 None \<Rightarrow> ''video.mp4''
               | Some n \<Rightarrow> if n = [] then ''video.mp4'' else n) = ''v.mp4''"
    by (simp add: pre)
  have saved: "saveAnalysis sample_stringify (\<lambda>z. z) sample_session
       = Some [(''analysis_data.json'', ''{notes: a, annotations: [X], primaryVideoFileName: v.mp4}''),
               (''v.mp4'', ''abc'')]"
    by (simp add: saveAnalysis_def pre sample_stringify_def sample_video_def)
  have "handleZipUpload Some sample_parse
        (saveAnalysis sample_stringify (\<lambda>z. z) sample_session) init
       = init\<lparr>videoSrc := Some \<lparr>f_name = ''v.mp4'', f_bytes = f_bytes sample_video\<rparr>,
              videoFileName := Some ''v.mp4'',
              videoFile := Some \<lparr>f_name = ''v.mp4'', f_bytes = f_bytes sample_video\<rparr>,
              drawings := [], annotations := [], clips := [], notes := []\<rparr>"
    by (rule C1_import_of_export_resets [where s = sample_session and vf = sample_video
          and name = "''v.mp4''" and parse = sample_parse and stringify = sample_stringify
          and loadAsync = Some and generateAsync = "\<lambda>z. z" and old = init,
          OF pre(1) name [symmetric]])
      (simp_all add: codec)
  then show ?thesis using pre(3,5) saved by (simp add: sample_video_def)
qed

text \<open>
  C7 claims a failure notice for an archive without the JSON entry.  For an archive that
  opens but has no entry \<open>analysis_data.json\<close>, \<open>handleZipUpload\<close> returns the state as it
  was: the store is unchanged, as claimed, but no \<open>alert\<close> is added either, unlike for an
  unreadable archive, malformed JSON or a missing video entry.
\<close>

theorem C7_missing_json_entry_silent:
  assumes "loadAsync f = Some z" and "map_of z ''analysis_data.json'' = None"
  shows "handleZipUpload loadAsync parse (Some f) s = s"
  using assms by (simp add: handleZipUpload_def)

theorem C7_missing_json_entry_silent_witness:
  "map_of [(''v.mp4'', ''abc'')] ''analysis_data.json'' = None
   \<and> handleZipUpload Some sample_parse (Some [(''v.mp4'', ''abc'')]) sample_session = sample_session
   \<and> alerts (handleZipUpload Some sample_parse (Some [(''v.mp4'', ''abc'')]) sample_session) = []"
proof -
  have "map_of [(''v.mp4'', ''abc'')] ''analysis_data.json'' = None" by simp
  moreover from C7_missing_json_entry_silent [of Some "[(''v.mp4'', ''abc'')]" _ sample_parse sample_session, OF refl this]
  have "handleZipUpload Some sample_parse (Some [(''v.mp4'', ''abc'')]) sample_session = sample_session" .
  moreover have "alerts sample_session = []"
    by (simp add: sample_session_def loadVideoFile_def init_def)
  ultimately show ?thesis by simp
qed

end
